theory Spec2Isabelle
  imports Main "HOL-Library.Sublist"
begin

section \<open>JavaScript strings and numbers used by the sources\<close>

text \<open>
  Texts are byte strings (\<open>string\<close>): ASCII characters are one \<open>char\<close>, anything else is
  its UTF-8 encoding. JavaScript numbers that hold integers are \<open>int\<close>; \<open>NaN\<close> and
  \<open>undefined\<close> are \<open>None\<close>.
\<close>

text \<open>\<open>String.prototype.toLowerCase\<close>: an ASCII capital letter gets bit 5 set (\<open>A\<close> is 65,
  \<open>a\<close> is 97); bytes of non-ASCII characters are left alone (no non-ASCII character
  lower-cases to one of the letters of \<open>quit\<close>, the only text the result is compared with).\<close>

definition toLowerCase_char :: "char \<Rightarrow> char" where
  "toLowerCase_char c =
     (if 65 \<le> (of_char c :: nat) \<and> (of_char c :: nat) \<le> 90
      then (case c of Char b0 b1 b2 b3 b4 b5 b6 b7 \<Rightarrow> Char b0 b1 b2 b3 b4 True b6 b7)
      else c)"

definition toLowerCase :: "string \<Rightarrow> string" where
  "toLowerCase s = map toLowerCase_char s"

text \<open>\<open>'quit'.startsWith(s)\<close>.\<close>

definition quit_startsWith :: "string \<Rightarrow> bool" where
  "quit_startsWith s = prefix s ''quit''"

text \<open>\<open>Number.prototype.toString\<close> on a non-negative integer: its decimal digits.\<close>

definition digit_char :: "nat \<Rightarrow> char" where
  "digit_char d = ''0123456789'' ! d"

function toString :: "nat \<Rightarrow> string" where
  "toString n = (if n < 10 then [digit_char n] else toString (n div 10) @ [digit_char (n mod 10)])"
  by pat_completeness auto
termination
  by (relation "measure id") auto

declare toString.simps [simp del]

text \<open>
  \<open>parseInt(s)\<close> with no radix: leading white space (the ASCII one here) is skipped, then
  an optional sign, then \<open>0x\<close> or \<open>0X\<close> selects radix 16 (otherwise 10), then the longest
  run of digits of that radix is read. No digit at all gives \<open>NaN\<close>. The value is an
  unbounded integer: the rounding of a JavaScript number beyond \<open>2^53\<close> does not change how
  it compares with the small numbers of the sources.
\<close>

definition is_space :: "char \<Rightarrow> bool" where
  "is_space c = ((of_char c :: nat) \<in> {9, 10, 11, 12, 13, 32})"

definition digit_of :: "nat \<Rightarrow> char \<Rightarrow> nat option" where
  "digit_of radix c =
     (let n = (of_char c :: nat) in
      if 48 \<le> n \<and> n \<le> 57 then (if n - 48 < radix then Some (n - 48) else None)
      else if 97 \<le> n \<and> n \<le> 102 then (if radix = 16 then Some (n - 87) else None)
      else if 65 \<le> n \<and> n \<le> 70 then (if radix = 16 then Some (n - 55) else None)
      else None)"

fun parse_digits :: "nat \<Rightarrow> string \<Rightarrow> nat option \<Rightarrow> nat option" where
  "parse_digits radix [] acc = acc"
| "parse_digits radix (c # cs) acc =
     (case digit_of radix c of
        None \<Rightarrow> acc
      | Some d \<Rightarrow> parse_digits radix cs (Some (radix * (case acc of None \<Rightarrow> 0 | Some a \<Rightarrow> a) + d)))"

definition strip_sign :: "string \<Rightarrow> int \<times> string" where
  "strip_sign s =
     (case s of
        [] \<Rightarrow> (1, s)
      | c # cs \<Rightarrow> if c = CHR ''-'' then (- 1, cs) else if c = CHR ''+'' then (1, cs) else (1, s))"

definition strip_radix :: "string \<Rightarrow> nat \<times> string" where
  "strip_radix s = (if prefix ''0x'' s \<or> prefix ''0X'' s then (16, drop 2 s) else (10, s))"

definition parseInt :: "string \<Rightarrow> int option" where
  "parseInt s =
     (let (sign, s2) = strip_sign (dropWhile is_space s);
          (radix, s3) = strip_radix s2
      in map_option (\<lambda>n. sign * int n) (parse_digits radix s3 None))"

text \<open>An argument that may be missing: \<open>parseInt(undefined)\<close> reads the text \<open>undefined\<close>.\<close>

definition parseInt_arg :: "string option \<Rightarrow> int option" where
  "parseInt_arg a = parseInt (case a of None \<Rightarrow> ''undefined'' | Some s \<Rightarrow> s)"


section \<open>The troubleshoot command (\<open>src/commands/troubleshoot.js\<close>)\<close>

text \<open>The command pushes ten pages; \<open>pages.length\<close> is 10.\<close>

definition pages_length :: int where
  "pages_length = 10"

text \<open>Lines 137 to 143: the page selected by \<open>args[0]\<close>.\<close>

definition initial_page :: "string option \<Rightarrow> int" where
  "initial_page arg0 =
     (let page = (case parseInt_arg arg0 of
                    None \<Rightarrow> 0
                  | Some n \<Rightarrow> if n > pages_length \<or> n \<le> 0 then 0 else n - 1)
      in if page > pages_length then 0 else page)"

text \<open>The four emoji names of the \<open>switch\<close>, as the bytes of the source file.\<close>

definition rewind :: string where
  "rewind = [CHR 0xE2, CHR 0x8F, CHR 0xAA]"

definition arrow_left :: string where
  "arrow_left = [CHR 0xE2, CHR 0xAC, CHR 0x85, CHR 0xEF, CHR 0xB8, CHR 0x8F]"

definition arrow_right :: string where
  "arrow_right = [CHR 0xE2, CHR 0x9E, CHR 0xA1, CHR 0xEF, CHR 0xB8, CHR 0x8F]"

definition fast_forward :: string where
  "fast_forward = [CHR 0xE2, CHR 0x8F, CHR 0xA9]"

text \<open>What the command shows: a page sent as a new message, or the message edited to a page.\<close>

datatype display = Send_page int | Edit_page int

fun shown :: "display \<Rightarrow> int" where
  "shown (Send_page i) = i"
| "shown (Edit_page i) = i"

text \<open>
  The \<open>collect\<close> handler of the author's reaction collector (lines 166 to 194): the new
  value of \<open>page\<close> and the edits made. The removal of the users' reactions does not touch
  \<open>page\<close> and is left out.
\<close>

definition collect :: "int \<Rightarrow> string \<Rightarrow> int \<times> display list" where
  "collect page name =
     (if name = rewind then
        (if page = 0 then (page, []) else (0, [Edit_page 0]))
      else if name = arrow_left then
        (if page = 0 then (page, []) else (page - 1, [Edit_page (page - 1)]))
      else if name = arrow_right then
        (if page + 1 = pages_length then (page, []) else (page + 1, [Edit_page (page + 1)]))
      else if name = fast_forward then
        (if page + 1 = pages_length then (page, []) else (pages_length - 1, [Edit_page (pages_length - 1)]))
      else (page, []))"

text \<open>The collector over the reactions of the author, in the order they arrive.\<close>

fun collector :: "int \<Rightarrow> string list \<Rightarrow> int \<times> display list" where
  "collector page [] = (page, [])"
| "collector page (name # names) =
     (let (page', ds) = collect page name;
          (page'', ds') = collector page' names
      in (page'', ds @ ds'))"

text \<open>
  \<open>execute(message, args)\<close> from line 137 on: a page other than the first is sent and the
  command returns; the first page is sent and the collector started.
\<close>

definition execute :: "string option \<Rightarrow> string list \<Rightarrow> int \<times> display list" where
  "execute arg0 names =
     (let page = initial_page arg0 in
      if page > 0 then (page, [Send_page page])
      else (let (page', ds) = collector page names in (page', Send_page page # ds)))"


section \<open>The prompt manager (\<open>src/unnamed/part_000\<close>)\<close>

subsection \<open>Data\<close>

text \<open>The message that shows the question (\<open>this.msg\<close>), with its \<open>deletable\<close> getter.\<close>

record ui_message =
  msg_id :: nat
  deletable :: bool

text \<open>A message received from the user: \<open>input.content\<close>, \<open>input.deletable\<close>.\<close>

record input_message =
  input_id :: nat
  content :: string
  input_deletable :: bool

text \<open>The emoji of a received reaction: \<open>emoji.id\<close> is \<open>null\<close> for a Unicode emoji.\<close>

record emoji =
  emoji_id :: "string option"
  emoji_name :: string

text \<open>
  \<open>options: string[] | RegExp\<close>. A regular expression (without the \<open>g\<close> and \<open>y\<close> flags,
  whose \<open>lastIndex\<close> would make \<open>test\<close> depend on earlier calls) is the predicate that
  says whether it matches a piece of the text, given what is before and after the piece:
  the context is there for anchors and look-around.
\<close>

type_synonym regexp = "string \<Rightarrow> string \<Rightarrow> string \<Rightarrow> bool"

datatype options = RegExp regexp | Array "string list"

text \<open>\<open>RegExp.prototype.test\<close>: the expression matches some piece of the text.\<close>

definition pieces :: "string \<Rightarrow> (string \<times> string \<times> string) list" where
  "pieces s =
     concat (map (\<lambda>i. map (\<lambda>j. (take i s, take j (drop i s), drop (i + j) s))
                            [0 ..< Suc (length s - i)])
                 [0 ..< Suc (length s)])"

definition regexp_test :: "regexp \<Rightarrow> string \<Rightarrow> bool" where
  "regexp_test r s = list_ex (\<lambda>(pre, piece, post). r pre piece post) (pieces s)"

text \<open>Everything the code asks of the chat transport, in the order it asks.\<close>

datatype action =
    Channel_send string
  | Msg_edit nat string
  | Msg_delete nat
  | Msg_react nat string
  | Trigger_send string
  | Input_delete nat
  | Await_messages int
  | Await_reactions nat int

text \<open>
  The state the code works on: the static set \<open>PromptManager.prompts\<close>; the field \<open>msg\<close>
  of every \<open>PromptManager\<close> object (objects are numbered); for every object, the question
  messages whose \<open>channel.send\<close> it has requested and that have not resolved yet, oldest
  first (\<open>this.msg\<close> is assigned only when the send resolves, line 25); the requests made
  to the transport so far; and the requests that the transport rejected with no handler
  attached to them.
\<close>

record world =
  prompts :: "string set"
  msg :: "nat \<Rightarrow> ui_message option"
  pending :: "nat \<Rightarrow> ui_message list"
  trace :: "action list"
  unhandled :: "action list"

text \<open>
  One \<open>PromptManager\<close> object and the transport around it: its identity, \<open>this.user.id\<close>,
  \<open>this.client.settings.promptTimeout\<close>, the message that a \<open>this.channel.send\<close> resolves
  to (by the number of sends requested before it), and the requests that the transport
  rejects.
\<close>

record prompt_manager =
  this :: nat
  user_id :: string
  promptTimeout :: int
  sent_message :: "nat \<Rightarrow> ui_message"
  fails :: "action \<Rightarrow> bool"

text \<open>
  What a call has done once the received events are used up: it is still awaiting
  (\<open>Pending\<close>), it has returned a value or nothing (\<open>Returned\<close>), or it has thrown.
\<close>

datatype 'a outcome = Pending | Returned "'a option" | Threw

definition log :: "action list \<Rightarrow> world \<Rightarrow> world" where
  "log as w = w\<lparr>trace := trace w @ as\<rparr>"

abbreviation newlines :: string where
  "newlines \<equiv> [CHR 0x0A, CHR 0x0A]"

text \<open>The number of question messages whose sending was requested so far.\<close>

fun is_Channel_send :: "action \<Rightarrow> bool" where
  "is_Channel_send (Channel_send q) = True"
| "is_Channel_send _ = False"

definition sends :: "world \<Rightarrow> nat" where
  "sends w = length (filter is_Channel_send (trace w))"

subsection \<open>Operations\<close>

text \<open>
  A request that the code does not await. When the transport rejects it, the rejection is
  taken by the \<open>catch\<close> handler if one is attached (\<open>caught\<close>); otherwise nobody handles
  it. Either way the code goes on.
\<close>

definition request :: "prompt_manager \<Rightarrow> bool \<Rightarrow> action \<Rightarrow> world \<Rightarrow> world" where
  "request pm caught a w =
     (let w1 = log [a] w in
      if fails pm a \<and> \<not> caught then w1\<lparr>unhandled := unhandled w1 @ [a]\<rparr> else w1)"

text \<open>
  \<open>sendQuestion\<close> (lines 24 to 27), up to where its caller goes on. Without \<open>this.msg\<close> the
  question is sent; the assignment to \<open>this.msg\<close> comes after the \<open>await\<close> of line 25, so
  the message is pending until the send resolves, and when the send is rejected the
  promise of \<open>sendQuestion\<close> is rejected: that is the boolean. With \<open>this.msg\<close> the message
  is edited, a rejection being caught (line 26).
\<close>

definition sendQuestion :: "prompt_manager \<Rightarrow> string \<Rightarrow> world \<Rightarrow> bool \<times> world" where
  "sendQuestion pm question w =
     (case msg w (this pm) of
        None \<Rightarrow>
          if fails pm (Channel_send question) then (True, log [Channel_send question] w)
          else (False, log [Channel_send question]
                  (w\<lparr>pending := (pending w)
                        (this pm := pending w (this pm) @ [sent_message pm (sends w)])\<rparr>))
      | Some m \<Rightarrow> (False, request pm True (Msg_edit (msg_id m) question) w))"

text \<open>
  The first \<open>n\<close> pending sends of the object resolve, in the order they were requested:
  each assigns \<open>this.msg\<close>, so the last of them stays.
\<close>

definition resolve_sends :: "prompt_manager \<Rightarrow> nat \<Rightarrow> world \<Rightarrow> world" where
  "resolve_sends pm n w =
     (let arrived = take n (pending w (this pm)) in
      w\<lparr>msg := (if arrived = [] then msg w else (msg w)(this pm \<mapsto> last arrived)),
        pending := (pending w)(this pm := drop n (pending w (this pm)))\<rparr>)"

text \<open>
  \<open>this.sendQuestion(...)\<close> without \<open>await\<close> (lines 56, 78 and 119): the caller goes on at
  once, and nobody handles a rejected promise.
\<close>

definition sendQuestion_detached :: "prompt_manager \<Rightarrow> string \<Rightarrow> world \<Rightarrow> world" where
  "sendQuestion_detached pm question w =
     (case sendQuestion pm question w of
        (rejects, w1) \<Rightarrow>
          if rejects then w1\<lparr>unhandled := unhandled w1 @ [Channel_send question]\<rparr> else w1)"

text \<open>
  \<open>await this.sendQuestion(...)\<close> (line 103): a rejected promise is thrown to the caller,
  which is the boolean; otherwise the caller goes on when the send has resolved, the
  sends requested before it having resolved by then. After an edit there is nothing to
  wait for.
\<close>

definition sendQuestion_awaited :: "prompt_manager \<Rightarrow> string \<Rightarrow> world \<Rightarrow> bool \<times> world" where
  "sendQuestion_awaited pm question w =
     (case sendQuestion pm question w of
        (rejects, w1) \<Rightarrow>
          if rejects then (True, w1)
          else if msg w (this pm) = None
          then (False, resolve_sends pm (length (pending w1 (this pm))) w1)
          else (False, w1))"

text \<open>\<open>delete\<close> (lines 32 to 35). No handler is attached to \<open>this.msg?.delete()\<close>.\<close>

definition delete :: "prompt_manager \<Rightarrow> world \<Rightarrow> world" where
  "delete pm w =
     (let w1 = w\<lparr>prompts := prompts w - {user_id pm}\<rparr> in
      case msg w1 (this pm) of
        None \<Rightarrow> w1
      | Some m \<Rightarrow> if deletable m then request pm False (Msg_delete (msg_id m)) w1 else w1)"

text \<open>
  Modelled from the spec: \<open>String.prototype.substitute\<close> is an extension that is not in the
  sources; the spec has the literal placeholder \<open>{VALUE}\<close> substituted by the invalid
  input. Every occurrence is replaced.
\<close>

function substitute :: "string \<Rightarrow> string \<Rightarrow> string" where
  "substitute [] v = []"
| "substitute (c # cs) v =
     (if prefix ''{VALUE}'' (c # cs) then v @ substitute (drop 6 cs) v
      else c # substitute cs v)"
  by pat_completeness auto
termination
  by (relation "measure (\<lambda>(s, v). length s)") auto

text \<open>The error text of line 78: \<open>error?.substitute({ VALUE: v }) || `...`\<close>.\<close>

definition error_text :: "string option \<Rightarrow> string \<Rightarrow> string" where
  "error_text error v =
     (let fallback = ''`'' @ v @ ''` is not a valid choice! Please try again.'' in
      case error of
        None \<Rightarrow> fallback
      | Some e \<Rightarrow> if substitute e v = [] then fallback else substitute e v)"

text \<open>Lines 75 and 76: the test that lets \<open>message\<close> return the input.\<close>

fun accepts_text :: "options \<Rightarrow> string \<Rightarrow> bool" where
  "accepts_text (RegExp r) s = regexp_test r s"
| "accepts_text (Array xs) s = (xs = [] \<or> s \<in> set xs)"

text \<open>
  The state in which \<open>message\<close> awaits (lines 54 to 58), the user not yet registered.
  Line 56 does not await \<open>sendQuestion\<close>.
\<close>

definition message_open :: "prompt_manager \<Rightarrow> string \<Rightarrow> int \<Rightarrow> bool \<Rightarrow> world \<Rightarrow> world" where
  "message_open pm question timeout initial w =
     (let w1 = w\<lparr>prompts := insert (user_id pm) (prompts w)\<rparr>;
          w2 = (if initial then sendQuestion_detached pm question w1 else w1)
      in log [Await_messages (1000 * 60 * timeout)] w2)"

text \<open>
  \<open>message\<close> (lines 44 to 80). The list holds, for the successive \<open>awaitMessages\<close> calls,
  how many of the object's pending sends resolve while the call awaits, and what the await
  resolves to: \<open>Some\<close> the first message of the user, or \<open>None\<close> when the time ran out.
  With no event left the call is still awaiting.
\<close>

fun message :: "prompt_manager \<Rightarrow> string \<Rightarrow> options \<Rightarrow> string option \<Rightarrow> int \<Rightarrow> bool
      \<Rightarrow> (nat \<times> input_message option) list \<Rightarrow> world \<Rightarrow> string outcome \<times> world" where
  "message pm question opts error timeout initial [] w =
     (if user_id pm \<in> prompts w
      then (Returned None, request pm False (Trigger_send ''You already have another prompt open!'') w)
      else (Pending, message_open pm question timeout initial w))"
| "message pm question opts error timeout initial ((n, input) # rest) w =
     (if user_id pm \<in> prompts w
      then (Returned None, request pm False (Trigger_send ''You already have another prompt open!'') w)
      else
        (let w3 = resolve_sends pm n (message_open pm question timeout initial w);
             w4 = w3\<lparr>prompts := prompts w3 - {user_id pm}\<rparr>
         in case input of
              None \<Rightarrow>
                (Returned None, request pm False (Trigger_send ''The prompt timed out!'') (delete pm w4))
            | Some inp \<Rightarrow>
                (let w5 = (if input_deletable inp
                           then request pm True (Input_delete (input_id inp)) w4 else w4) in
                 if quit_startsWith (toLowerCase (content inp))
                 then (Returned None,
                       request pm False (Trigger_send ''Successfully cancelled the prompt!'') w5)
                 else if accepts_text opts (content inp)
                 then (Returned (Some (content inp)), w5)
                 else message pm question opts error timeout False rest
                        (sendQuestion_detached pm
                           (error_text error (content inp) @ newlines @ question) w5))))"

text \<open>Line 117: \<open>input.emoji.id || input.emoji.name\<close>.\<close>

definition id_or_name :: "emoji \<Rightarrow> string" where
  "id_or_name e =
     (case emoji_id e of
        None \<Rightarrow> emoji_name e
      | Some i \<Rightarrow> if i = [] then emoji_name e else i)"

text \<open>Lines 116 and 117: the test that lets \<open>reaction\<close> return the emoji.\<close>

fun accepts_emoji :: "options \<Rightarrow> emoji \<Rightarrow> bool" where
  "accepts_emoji (RegExp r) e = regexp_test r (emoji_name e)"
| "accepts_emoji (Array xs) e = (xs = [] \<or> id_or_name e \<in> set xs)"

text \<open>Line 104: one reaction per option, when asked for and the options are an array.\<close>

fun react_with :: "bool \<Rightarrow> options \<Rightarrow> ui_message option \<Rightarrow> action list" where
  "react_with True (Array xs) (Some m) = map (Msg_react (msg_id m)) xs"
| "react_with _ _ _ = []"

text \<open>Line 119: \<open>error || `That is not a valid choice! Please try again.`\<close>.\<close>

definition reaction_error_text :: "string option \<Rightarrow> string" where
  "reaction_error_text error =
     (case error of
        None \<Rightarrow> ''That is not a valid choice! Please try again.''
      | Some e \<Rightarrow> if e = [] then ''That is not a valid choice! Please try again.'' else e)"

text \<open>
  Lines 101 to 106 of \<open>reaction\<close>, the user not yet registered: the message whose
  reactions the call awaits, or \<open>None\<close> when the call throws before it awaits them. It
  throws when the awaited \<open>sendQuestion\<close> is rejected (line 103), when one of the awaited
  reactions of line 104 is rejected, and when there is no \<open>this.msg\<close> to call
  \<open>awaitReactions\<close> on (line 106).
\<close>

definition reaction_open :: "prompt_manager \<Rightarrow> string \<Rightarrow> options \<Rightarrow> bool \<Rightarrow> bool \<Rightarrow> world
      \<Rightarrow> ui_message option \<times> world" where
  "reaction_open pm question opts react initial w =
     (let w1 = w\<lparr>prompts := insert (user_id pm) (prompts w)\<rparr> in
      case (if initial then sendQuestion_awaited pm question w1 else (False, w1)) of
        (rejects, w2) \<Rightarrow>
          if rejects then (None, w2)
          else
            (let reacts = react_with react opts (msg w2 (this pm));
                 w3 = log reacts w2
             in if list_ex (fails pm) reacts then (None, w3) else (msg w3 (this pm), w3)))"

text \<open>
  \<open>reaction\<close> (lines 90 to 121). The list holds, for the successive \<open>awaitReactions\<close>
  calls, how many of the object's pending sends resolve while the call awaits, and what the
  await resolves to.
\<close>

fun reaction :: "prompt_manager \<Rightarrow> string \<Rightarrow> options \<Rightarrow> bool \<Rightarrow> string option \<Rightarrow> int \<Rightarrow> bool
      \<Rightarrow> (nat \<times> emoji option) list \<Rightarrow> world \<Rightarrow> emoji outcome \<times> world" where
  "reaction pm question opts react error timeout initial [] w =
     (if user_id pm \<in> prompts w
      then (Returned None, request pm False (Trigger_send ''You already have another prompt open!'') w)
      else
        (case reaction_open pm question opts react initial w of
           (None, w3) \<Rightarrow> (Threw, w3)
         | (Some m, w3) \<Rightarrow> (Pending, log [Await_reactions (msg_id m) (1000 * 60 * timeout)] w3)))"
| "reaction pm question opts react error timeout initial ((n, input) # rest) w =
     (if user_id pm \<in> prompts w
      then (Returned None, request pm False (Trigger_send ''You already have another prompt open!'') w)
      else
        (case reaction_open pm question opts react initial w of
           (None, w3) \<Rightarrow> (Threw, w3)
         | (Some m, w3) \<Rightarrow>
             (let w4 = resolve_sends pm n (log [Await_reactions (msg_id m) (1000 * 60 * timeout)] w3);
                  w5 = w4\<lparr>prompts := prompts w4 - {user_id pm}\<rparr>
              in case input of
                   None \<Rightarrow>
                     (Returned None,
                      request pm False (Trigger_send ''The prompt timed out!'') (delete pm w5))
                 | Some e \<Rightarrow>
                     if accepts_emoji opts e
                     then (Returned (Some e), w5)
                     else reaction pm question opts react error timeout False rest
                            (sendQuestion_detached pm
                               (reaction_error_text error @ newlines @ question) w5))))"

text \<open>\<open>Array.prototype.join\<close> with a separator.\<close>

fun join :: "string \<Rightarrow> string list \<Rightarrow> string" where
  "join sep [] = []"
| "join sep [x] = x"
| "join sep (x # y # ys) = x @ sep @ join sep (y # ys)"

text \<open>\<open>choices[k]\<close> for a number \<open>k\<close> or \<open>NaN\<close>: \<open>undefined\<close> outside the array.\<close>

definition element_at :: "'a list \<Rightarrow> int option \<Rightarrow> 'a option" where
  "element_at xs k =
     (case k of
        None \<Rightarrow> None
      | Some i \<Rightarrow> if 0 \<le> i \<and> i < int (length xs) then Some (xs ! nat i) else None)"

text \<open>The question and the options that \<open>chooseOne\<close> hands to \<open>message\<close> (lines 125 to 131).
  \<open>toCodeblock\<close> is a string extension that is not in the sources and \<open>to_text\<close> is the
  conversion of a choice to text in the template literal; both are parameters.\<close>

definition choice_lines :: "('a \<Rightarrow> string) \<Rightarrow> 'a list \<Rightarrow> string list" where
  "choice_lines to_text choices =
     map (\<lambda>(c, i). toString (i + 1) @ '' | '' @ to_text c) (zip choices [0 ..< length choices])"

definition choice_question :: "(string \<Rightarrow> string \<Rightarrow> string) \<Rightarrow> ('a \<Rightarrow> string) \<Rightarrow> string \<Rightarrow> 'a list \<Rightarrow> string" where
  "choice_question toCodeblock to_text question choices =
     question @ toCodeblock ''css'' (join [CHR 0x0A] (choice_lines to_text choices))"

definition choice_options :: "'a list \<Rightarrow> string list" where
  "choice_options choices = map (\<lambda>i. toString (i + 1)) [0 ..< length choices]"

text \<open>\<open>chooseOne\<close> (lines 123 to 138).\<close>

definition chooseOne :: "prompt_manager \<Rightarrow> (string \<Rightarrow> string \<Rightarrow> string) \<Rightarrow> ('a \<Rightarrow> string) \<Rightarrow> string
      \<Rightarrow> 'a list \<Rightarrow> (nat \<times> input_message option) list \<Rightarrow> world \<Rightarrow> 'a outcome \<times> world" where
  "chooseOne pm toCodeblock to_text question choices evs w =
     (case message pm (choice_question toCodeblock to_text question choices)
             (Array (choice_options choices))
             (Some ''`{VALUE}` is not a valid option! Please try again.'')
             (promptTimeout pm) True evs w of
        (Pending, w') \<Rightarrow> (Pending, w')
      | (Threw, w') \<Rightarrow> (Threw, w')
      | (Returned None, w') \<Rightarrow> (Returned None, w')
      | (Returned (Some choice), w') \<Rightarrow>
          if choice = [] then (Returned None, w')
          else (Returned (element_at choices (map_option (\<lambda>n. n - 1) (parseInt choice))), w'))"


subsection \<open>Reading the trace\<close>

text \<open>The question messages whose deletion was requested, in order.\<close>

definition ui_deletes :: "action list \<Rightarrow> nat list" where
  "ui_deletes as = concat (map (\<lambda>a. case a of Msg_delete i \<Rightarrow> [i] | _ \<Rightarrow> []) as)"

text \<open>
  The requests of a call of \<open>message\<close> that has returned \<open>r\<close>, by the way it ended: the
  time ran out, the user cancelled, or an input was accepted.
\<close>

definition terminal :: "prompt_manager \<Rightarrow> string option \<Rightarrow> world \<Rightarrow> action list \<Rightarrow> bool" where
  "terminal pm r w' as \<longleftrightarrow>
     as \<noteq> [] \<and>
     (last as = Trigger_send ''The prompt timed out!'' \<and> r = None
        \<and> ui_deletes as = (case msg w' (this pm) of
                             None \<Rightarrow> []
                           | Some m \<Rightarrow> if deletable m then [msg_id m] else [])
      \<or> last as = Trigger_send ''Successfully cancelled the prompt!'' \<and> r = None
      \<or> r \<noteq> None \<and> ui_deletes as = [])"

subsection \<open>Example values\<close>

text \<open>
  Two \<open>PromptManager\<close> objects of the same user on a transport that rejects nothing, a
  world with no prompt open, a received message, and the world in which the first object
  awaits the answer to \<open>Q?\<close>, the send of the question not yet resolved.
\<close>

definition example_manager :: prompt_manager where
  "example_manager = \<lparr>this = 0, user_id = ''u1'', promptTimeout = 5,
     sent_message = (\<lambda>k. \<lparr>msg_id = 7 + k, deletable = True\<rparr>), fails = (\<lambda>a. False)\<rparr>"

definition second_manager :: prompt_manager where
  "second_manager = \<lparr>this = 1, user_id = ''u1'', promptTimeout = 5,
     sent_message = (\<lambda>k. \<lparr>msg_id = 20 + k, deletable = True\<rparr>), fails = (\<lambda>a. False)\<rparr>"

definition empty_world :: world where
  "empty_world = \<lparr>prompts = {}, msg = (\<lambda>_. None), pending = (\<lambda>_. []), trace = [], unhandled = []\<rparr>"

definition typed :: "string \<Rightarrow> input_message" where
  "typed s = \<lparr>input_id = 1, content = s, input_deletable = True\<rparr>"

definition waiting_world :: world where
  "waiting_world = \<lparr>prompts = {''u1''}, msg = (\<lambda>_. None),
     pending = (\<lambda>_. [])(0 := [\<lparr>msg_id = 7, deletable = True\<rparr>]),
     trace = [Channel_send ''Q?'', Await_messages 300000], unhandled = []\<rparr>"

text \<open>The world in which the question message 7 of the first object is there.\<close>

definition asked_world :: "action list \<Rightarrow> world" where
  "asked_world as = \<lparr>prompts = {}, msg = (\<lambda>_. None)(0 \<mapsto> \<lparr>msg_id = 7, deletable = True\<rparr>),
     pending = (\<lambda>_. [])(0 := []), trace = as, unhandled = []\<rparr>"

text \<open>A code block wrapper for \<open>toCodeblock\<close>, two emojis, and the regular expression
  that finds a word.\<close>

definition codeblock :: "string \<Rightarrow> string \<Rightarrow> string" where
  "codeblock lang s = ''```'' @ lang @ [CHR 0x0A] @ s @ ''```''"

definition custom_emoji :: emoji where
  "custom_emoji = \<lparr>emoji_id = Some ''123'', emoji_name = ''yes''\<rparr>"

definition unicode_emoji :: emoji where
  "unicode_emoji = \<lparr>emoji_id = None, emoji_name = ''ok''\<rparr>"

definition contains :: "string \<Rightarrow> regexp" where
  "contains word pre piece post = (piece = word)"

lemmas example_defs = example_manager_def second_manager_def empty_world_def typed_def
  waiting_world_def asked_world_def

lemmas eval_defs = example_defs message_open_def sendQuestion_def sendQuestion_detached_def
  sendQuestion_awaited_def resolve_sends_def request_def log_def Let_def sends_def
  quit_startsWith_def toLowerCase_def toLowerCase_char_def delete_def


section \<open>Properties of the troubleshoot command\<close>

lemma initial_page_range: "0 \<le> initial_page a \<and> initial_page a \<le> 9"
  by (auto simp: initial_page_def pages_length_def Let_def split: option.splits)

lemma collect_range:
  "0 \<le> p \<Longrightarrow> p \<le> 9 \<Longrightarrow> 0 \<le> fst (collect p name) \<and> fst (collect p name) \<le> 9"
  by (auto simp: collect_def pages_length_def)

lemma collect_shown:
  "0 \<le> p \<Longrightarrow> p \<le> 9 \<Longrightarrow> d \<in> set (snd (collect p name)) \<Longrightarrow> 0 \<le> shown d \<and> shown d \<le> 9"
  by (auto simp: collect_def pages_length_def split: if_splits)

lemma collector_range:
  "0 \<le> p \<Longrightarrow> p \<le> 9 \<Longrightarrow>
     (0 \<le> fst (collector p names) \<and> fst (collector p names) \<le> 9)
     \<and> (\<forall>d \<in> set (snd (collector p names)). 0 \<le> shown d \<and> shown d \<le> 9)"
proof (induction names arbitrary: p)
  case Nil
  then show ?case by simp
next
  case (Cons name names)
  obtain p' ds where c: "collect p name = (p', ds)"
    by (cases "collect p name")
  from collect_range [OF Cons.prems, of name] c have p': "0 \<le> p'" "p' \<le> 9"
    by simp_all
  from collect_shown [OF Cons.prems, of _ name] c
  have ds: "\<forall>d \<in> set ds. 0 \<le> shown d \<and> shown d \<le> 9"
    by simp
  from Cons.IH [OF p'] c ds show ?case
    by (auto simp: split_beta)
qed

lemma names_distinct:
  "rewind \<noteq> arrow_left" "rewind \<noteq> arrow_right" "rewind \<noteq> fast_forward"
  "arrow_left \<noteq> arrow_right" "arrow_left \<noteq> fast_forward" "arrow_right \<noteq> fast_forward"
  by (simp_all add: rewind_def arrow_left_def arrow_right_def fast_forward_def)

text \<open>
  Claim C10 (amended). The page index of the troubleshoot command stays within 0..9: the
  selected page is in that range, and an argument in which \<open>parseInt\<close> reads no integer,
  or an integer outside 1..10, selects index 0; from an index in range, the rewind emoji
  sets it to 0, the fast-forward emoji to the last page 9, the left arrow decrements it only
  when it is greater than 0, the right arrow increments it only when it is not the last
  page, any other emoji leaves it unchanged; and every page that \<open>execute\<close> sends or edits
  to, and the index it ends with, is in 0..9.
\<close>

theorem troubleshoot_page_in_range:
  "(0 \<le> initial_page arg0 \<and> initial_page arg0 \<le> 9)
   \<and> ((case parseInt_arg arg0 of None \<Rightarrow> True | Some n \<Rightarrow> n < 1 \<or> 10 < n) \<longrightarrow> initial_page arg0 = 0)
   \<and> (0 \<le> p \<and> p \<le> 9 \<longrightarrow>
        fst (collect p rewind) = 0
        \<and> fst (collect p fast_forward) = 9
        \<and> fst (collect p arrow_left) = (if p > 0 then p - 1 else p)
        \<and> fst (collect p arrow_right) = (if p \<noteq> 9 then p + 1 else p)
        \<and> (name \<notin> {rewind, arrow_left, arrow_right, fast_forward} \<longrightarrow> fst (collect p name) = p)
        \<and> 0 \<le> fst (collect p name) \<and> fst (collect p name) \<le> 9)
   \<and> (0 \<le> fst (execute arg0 names) \<and> fst (execute arg0 names) \<le> 9)
   \<and> (\<forall>d \<in> set (snd (execute arg0 names)). 0 \<le> shown d \<and> shown d \<le> 9)"
proof -
  have a: "0 \<le> initial_page arg0 \<and> initial_page arg0 \<le> 9"
    by (rule initial_page_range)
  have b: "(case parseInt_arg arg0 of None \<Rightarrow> True | Some n \<Rightarrow> n < 1 \<or> 10 < n) \<longrightarrow> initial_page arg0 = 0"
    by (auto simp: initial_page_def pages_length_def split: option.splits)
  have c: "0 \<le> p \<and> p \<le> 9 \<longrightarrow>
        fst (collect p rewind) = 0
        \<and> fst (collect p fast_forward) = 9
        \<and> fst (collect p arrow_left) = (if p > 0 then p - 1 else p)
        \<and> fst (collect p arrow_right) = (if p \<noteq> 9 then p + 1 else p)
        \<and> (name \<notin> {rewind, arrow_left, arrow_right, fast_forward} \<longrightarrow> fst (collect p name) = p)
        \<and> 0 \<le> fst (collect p name) \<and> fst (collect p name) \<le> 9"
    using collect_range [of p name]
    by (auto simp: collect_def pages_length_def names_distinct names_distinct [symmetric])
  have d: "(0 \<le> fst (execute arg0 names) \<and> fst (execute arg0 names) \<le> 9)
     \<and> (\<forall>d \<in> set (snd (execute arg0 names)). 0 \<le> shown d \<and> shown d \<le> 9)"
  proof (cases "initial_page arg0 > 0")
    case True
    with a show ?thesis by (simp add: execute_def Let_def)
  next
    case False
    with a have z: "initial_page arg0 = 0" by simp
    from collector_range [of 0 names] show ?thesis
      by (simp add: execute_def z split_beta)
  qed
  from a b c d show ?thesis by blast
qed

theorem troubleshoot_page_in_range_witness:
  "parseInt_arg (Some ''abc'') = None
   \<and> initial_page (Some ''abc'') = 0
   \<and> (0::int) \<le> 3 \<and> (3::int) \<le> 9
   \<and> fst (collect 3 rewind) = 0
   \<and> fst (collect 3 fast_forward) = 9
   \<and> fst (collect 3 arrow_left) = 2
   \<and> fst (collect 3 arrow_right) = 4
   \<and> ''x'' \<notin> {rewind, arrow_left, arrow_right, fast_forward}
   \<and> fst (collect 3 ''x'') = 3
   \<and> execute (Some ''abc'') [arrow_right, fast_forward] = (9, [Send_page 0, Edit_page 1, Edit_page 9])
   \<and> list_all (\<lambda>d. 0 \<le> shown d \<and> shown d \<le> 9) (snd (execute (Some ''abc'') [arrow_right, fast_forward]))"
  using troubleshoot_page_in_range [of "Some ''abc''" 3 "''x''" "[arrow_right, fast_forward]"]
  by (simp add: parseInt_arg_def parseInt_def strip_sign_def strip_radix_def is_space_def digit_of_def
      rewind_def arrow_left_def arrow_right_def fast_forward_def execute_def collect_def
      pages_length_def initial_page_def)

text \<open>
  The claim as first stated has every argument that is not an integer in 1..10 select
  index 0. The arguments \<open>2.5\<close> and \<open>3abc\<close> are no integers, yet \<open>parseInt\<close> reads 2 and 3
  from them and the pages of index 1 and 2 are selected.
\<close>

theorem troubleshoot_page_in_range_counterexample:
  "parseInt_arg (Some ''2.5'') = Some 2 \<and> initial_page (Some ''2.5'') = 1
   \<and> parseInt_arg (Some ''3abc'') = Some 3 \<and> initial_page (Some ''3abc'') = 2"
  by (simp add: parseInt_arg_def parseInt_def strip_sign_def strip_radix_def is_space_def
      digit_of_def initial_page_def pages_length_def)


section \<open>Properties of the prompt manager\<close>

subsection \<open>What the operations do to the fields of the world\<close>

lemma log_fields [simp]:
  "prompts (log as w) = prompts w" "msg (log as w) = msg w" "pending (log as w) = pending w"
  "trace (log as w) = trace w @ as" "unhandled (log as w) = unhandled w"
  by (simp_all add: log_def)

lemma request_fields [simp]:
  "prompts (request pm c a w) = prompts w" "msg (request pm c a w) = msg w"
  "pending (request pm c a w) = pending w" "trace (request pm c a w) = trace w @ [a]"
  by (simp_all add: request_def Let_def)

lemma request_unhandled:
  "unhandled (request pm c a w) = unhandled w @ (if fails pm a \<and> \<not> c then [a] else [])"
  by (simp add: request_def Let_def)

lemma resolve_sends_fields [simp]:
  "prompts (resolve_sends pm n w) = prompts w" "trace (resolve_sends pm n w) = trace w"
  "unhandled (resolve_sends pm n w) = unhandled w"
  by (simp_all add: resolve_sends_def Let_def)

lemma resolve_sends_msg:
  "msg (resolve_sends pm n w) =
     (if take n (pending w (this pm)) = [] then msg w
      else (msg w)(this pm \<mapsto> last (take n (pending w (this pm)))))"
  by (simp add: resolve_sends_def Let_def)

lemma resolve_sends_prompts_update:
  "resolve_sends pm n (w\<lparr>prompts := P\<rparr>) = (resolve_sends pm n w)\<lparr>prompts := P\<rparr>"
  by (simp add: resolve_sends_def Let_def)

lemma sendQuestion_detached_fields [simp]:
  "prompts (sendQuestion_detached pm q w) = prompts w"
  "msg (sendQuestion_detached pm q w) = msg w"
  by (simp_all add: sendQuestion_detached_def sendQuestion_def split: option.splits)

lemma sendQuestion_detached_trace:
  "trace (sendQuestion_detached pm q w) =
     trace w @ [case msg w (this pm) of None \<Rightarrow> Channel_send q | Some m \<Rightarrow> Msg_edit (msg_id m) q]"
  by (simp add: sendQuestion_detached_def sendQuestion_def split: option.splits)

lemma sendQuestion_detached_prompts_update:
  "sendQuestion_detached pm q (w\<lparr>prompts := P\<rparr>) = (sendQuestion_detached pm q w)\<lparr>prompts := P\<rparr>"
  by (simp add: sendQuestion_detached_def sendQuestion_def request_def log_def sends_def Let_def
      split: option.splits)

lemma delete_fields:
  "prompts (delete pm w) = prompts w - {user_id pm}"
  "msg (delete pm w) = msg w"
  "pending (delete pm w) = pending w"
  "trace (delete pm w) =
     trace w @ (case msg w (this pm) of
                  None \<Rightarrow> []
                | Some m \<Rightarrow> if deletable m then [Msg_delete (msg_id m)] else [])"
  by (simp_all add: delete_def Let_def split: option.splits)

lemma message_open_eq:
  "message_open pm q t i w =
     (log [Await_messages (1000 * 60 * t)] (if i then sendQuestion_detached pm q w else w))
       \<lparr>prompts := insert (user_id pm) (prompts w)\<rparr>"
  by (simp add: message_open_def Let_def sendQuestion_detached_prompts_update log_def)

lemma message_open_fields:
  "prompts (message_open pm q t i w) = insert (user_id pm) (prompts w)"
  "msg (message_open pm q t i w) = msg w"
  "pending (message_open pm q t i w) = pending (if i then sendQuestion_detached pm q w else w)"
  "trace (message_open pm q t i w) =
     trace (if i then sendQuestion_detached pm q w else w) @ [Await_messages (1000 * 60 * t)]"
  "unhandled (message_open pm q t i w) = unhandled (if i then sendQuestion_detached pm q w else w)"
  by (simp_all add: message_open_eq)

lemma released_prompts: "u \<notin> P \<Longrightarrow> insert u P - {u} = P"
  by auto

text \<open>The world in which the await of \<open>message\<close> has resolved and the entry is released.\<close>

lemma message_released:
  "user_id pm \<notin> prompts w \<Longrightarrow>
     (resolve_sends pm n (message_open pm q t i w))
        \<lparr>prompts := prompts (resolve_sends pm n (message_open pm q t i w)) - {user_id pm}\<rparr>
       = resolve_sends pm n
           (log [Await_messages (1000 * 60 * t)] (if i then sendQuestion_detached pm q w else w))"
  by (simp add: message_open_eq resolve_sends_prompts_update released_prompts)

lemma sendQuestion_awaited_prompts [simp]:
  "prompts (snd (sendQuestion_awaited pm q w)) = prompts w"
  by (simp add: sendQuestion_awaited_def sendQuestion_def split: option.splits prod.splits)

lemma reaction_open_prompts:
  "prompts (snd (reaction_open pm q opts react i w)) = insert (user_id pm) (prompts w)"
  by (simp add: reaction_open_def Let_def split: prod.splits)
    (metis sendQuestion_awaited_prompts snd_conv world.select_convs(1) world.surjective world.update_convs(1))

subsection \<open>Unfolding a call of \<open>message\<close> on its first event\<close>

lemma message_guard:
  "user_id pm \<in> prompts w \<Longrightarrow>
     message pm q opts err t i evs w
       = (Returned None, request pm False (Trigger_send ''You already have another prompt open!'') w)"
  by (cases evs) auto

lemma message_event:
  assumes "user_id pm \<notin> prompts w"
  shows "message pm q opts err t i ((n, input) # rest) w =
    (let w4 = resolve_sends pm n
                (log [Await_messages (1000 * 60 * t)] (if i then sendQuestion_detached pm q w else w))
     in case input of
          None \<Rightarrow>
            (Returned None, request pm False (Trigger_send ''The prompt timed out!'') (delete pm w4))
        | Some inp \<Rightarrow>
            (let w5 = (if input_deletable inp
                       then request pm True (Input_delete (input_id inp)) w4 else w4) in
             if quit_startsWith (toLowerCase (content inp))
             then (Returned None,
                   request pm False (Trigger_send ''Successfully cancelled the prompt!'') w5)
             else if accepts_text opts (content inp)
             then (Returned (Some (content inp)), w5)
             else message pm q opts err t False rest
                    (sendQuestion_detached pm (error_text err (content inp) @ newlines @ q) w5)))"
  unfolding message.simps
  by (simp only: assms if_False Let_def message_released [OF assms])

lemma quit_prefixes:
  "quit_startsWith s \<longleftrightarrow> s \<in> {[], ''q'', ''qu'', ''qui'', ''quit''}"
  unfolding quit_startsWith_def in_set_prefixes [symmetric] by auto

subsection \<open>One prompt per user\<close>

lemma reaction_guard:
  "user_id pm \<in> prompts w \<Longrightarrow>
     reaction pm q opts react err t i evs w
       = (Returned None, request pm False (Trigger_send ''You already have another prompt open!'') w)"
  by (cases evs) auto

lemma message_pending_registered:
  "fst (message pm q opts err t i evs w) = Pending \<Longrightarrow>
     user_id pm \<in> prompts (snd (message pm q opts err t i evs w))"
proof (induction evs arbitrary: w i)
  case Nil
  then show ?case by (simp add: message_open_fields split: if_splits)
next
  case (Cons ev evs)
  then show ?case
    by (cases ev) (auto simp: Let_def split: if_splits option.splits)
qed

lemma reaction_pending_registered:
  "fst (reaction pm q opts react err t i evs w) = Pending \<Longrightarrow>
     user_id pm \<in> prompts (snd (reaction pm q opts react err t i evs w))"
proof (induction evs arbitrary: w i)
  case Nil
  then show ?case
    using reaction_open_prompts [of pm q opts react i w]
    by (auto split: if_splits option.splits prod.splits)
next
  case (Cons ev evs)
  then show ?case
    by (cases ev) (auto simp: Let_def split: if_splits option.splits prod.splits)
qed

text \<open>
  Claim C1. The registry is a set of user ids, so a user is registered at most once, and a
  call that is awaiting holds the entry of its user. When the user of a \<open>PromptManager\<close> is
  already registered, \<open>message\<close> and \<open>reaction\<close> request the notice
  \<open>You already have another prompt open!\<close> and return nothing: no event is consumed, and the
  registry, the \<open>msg\<close> field of every object and the pending sends are as before.
\<close>

theorem one_prompt_per_user:
  "(user_id pm \<in> prompts w \<longrightarrow>
      message pm question opts error timeout initial evs w
        = (Returned None, request pm False (Trigger_send ''You already have another prompt open!'') w)
      \<and> reaction pm question opts react error timeout initial revs w
        = (Returned None, request pm False (Trigger_send ''You already have another prompt open!'') w)
      \<and> prompts (request pm False (Trigger_send ''You already have another prompt open!'') w) = prompts w
      \<and> msg (request pm False (Trigger_send ''You already have another prompt open!'') w) = msg w
      \<and> pending (request pm False (Trigger_send ''You already have another prompt open!'') w) = pending w
      \<and> trace (request pm False (Trigger_send ''You already have another prompt open!'') w)
          = trace w @ [Trigger_send ''You already have another prompt open!''])
   \<and> (fst (message pm question opts error timeout initial evs w) = Pending \<longrightarrow>
        user_id pm \<in> prompts (snd (message pm question opts error timeout initial evs w)))
   \<and> (fst (reaction pm question opts react error timeout initial revs w) = Pending \<longrightarrow>
        user_id pm \<in> prompts (snd (reaction pm question opts react error timeout initial revs w)))"
  using message_guard [of pm w question opts error timeout initial evs]
    reaction_guard [of pm w question opts react error timeout initial revs]
    message_pending_registered [of pm question opts error timeout initial evs w]
    reaction_pending_registered [of pm question opts react error timeout initial revs w]
  by simp

theorem one_prompt_per_user_witness:
  "message example_manager ''Q?'' (Array []) None 5 True [] empty_world = (Pending, waiting_world)
   \<and> fst (reaction example_manager ''Q?'' (Array []) False None 5 True [] empty_world) = Pending
   \<and> user_id second_manager \<in> prompts waiting_world
   \<and> message second_manager ''Other?'' (Array []) None 5 True [(1, Some (typed ''hello''))] waiting_world
       = (Returned None, waiting_world\<lparr>trace := [Channel_send ''Q?'', Await_messages 300000,
            Trigger_send ''You already have another prompt open!'']\<rparr>)
   \<and> reaction second_manager ''Other?'' (Array []) False None 5 True [(0, None)] waiting_world
       = (Returned None, waiting_world\<lparr>trace := [Channel_send ''Q?'', Await_messages 300000,
            Trigger_send ''You already have another prompt open!'']\<rparr>)"
  using one_prompt_per_user [of second_manager waiting_world "''Other?''" "Array []" None 5 True
      "[(1, Some (typed ''hello''))]" False "[(0, None)]"]
    one_prompt_per_user [of example_manager empty_world "''Q?''" "Array []" None 5 True "[]" False "[]"]
  by (simp add: eval_defs reaction_open_def)

subsection \<open>Cancelling\<close>

text \<open>
  Claim C3. When the awaited message of the user is, in lower case, a non-empty prefix of
  \<open>quit\<close>, \<open>message\<close> sends \<open>Successfully cancelled the prompt!\<close> and returns nothing,
  whatever the options are: the check comes before the options are looked at. The
  registry is as before the call.
\<close>

theorem quit_prefix_cancels:
  assumes "user_id pm \<notin> prompts w"
    and "content inp \<noteq> []"
    and "prefix (toLowerCase (content inp)) ''quit''"
  shows "fst (message pm question opts error timeout initial ((n, Some inp) # rest) w) = Returned None
    \<and> prompts (snd (message pm question opts error timeout initial ((n, Some inp) # rest) w)) = prompts w
    \<and> msg (snd (message pm question opts error timeout initial ((n, Some inp) # rest) w))
        = msg (resolve_sends pm n (if initial then sendQuestion_detached pm question w else w))
    \<and> trace (snd (message pm question opts error timeout initial ((n, Some inp) # rest) w))
        = trace (if initial then sendQuestion_detached pm question w else w)
          @ [Await_messages (1000 * 60 * timeout)]
          @ (if input_deletable inp then [Input_delete (input_id inp)] else [])
          @ [Trigger_send ''Successfully cancelled the prompt!'']"
  using assms
  by (simp add: message_event Let_def quit_startsWith_def resolve_sends_msg del: message.simps)

theorem quit_prefix_cancels_witness:
  "user_id example_manager \<notin> prompts empty_world
   \<and> content (typed ''QU'') \<noteq> []
   \<and> prefix (toLowerCase (content (typed ''QU''))) ''quit''
   \<and> accepts_text (Array [''QU'']) (content (typed ''QU''))
   \<and> fst (message example_manager ''Q?'' (Array [''QU'']) None 5 True [(1, Some (typed ''QU''))] empty_world)
       = Returned None
   \<and> trace (snd (message example_manager ''Q?'' (Array [''QU'']) None 5 True [(1, Some (typed ''QU''))] empty_world))
       = [Channel_send ''Q?'', Await_messages 300000, Input_delete 1,
          Trigger_send ''Successfully cancelled the prompt!'']"
  using quit_prefix_cancels [of example_manager empty_world "typed ''QU''" "''Q?''" "Array [''QU'']"
      None 5 True 1 "[]"]
  by (simp add: eval_defs)

text \<open>
  Claim C9. When the content of the awaited message is empty, \<open>message\<close> cancels: it sends
  \<open>Successfully cancelled the prompt!\<close> and returns nothing, and the options and the error
  text play no part in what the call does.
\<close>

theorem empty_input_cancels:
  assumes "user_id pm \<notin> prompts w"
    and "content inp = []"
  shows "message pm question opts error timeout initial ((n, Some inp) # rest) w
      = message pm question opts' error' timeout initial ((n, Some inp) # rest) w
    \<and> fst (message pm question opts error timeout initial ((n, Some inp) # rest) w) = Returned None
    \<and> trace (snd (message pm question opts error timeout initial ((n, Some inp) # rest) w))
        = trace (if initial then sendQuestion_detached pm question w else w)
          @ [Await_messages (1000 * 60 * timeout)]
          @ (if input_deletable inp then [Input_delete (input_id inp)] else [])
          @ [Trigger_send ''Successfully cancelled the prompt!'']"
  using assms
  by (simp add: message_event Let_def quit_startsWith_def toLowerCase_def del: message.simps)

theorem empty_input_cancels_witness:
  "user_id example_manager \<notin> prompts empty_world
   \<and> content (typed []) = []
   \<and> accepts_text (Array []) (content (typed []))
   \<and> message example_manager ''Q?'' (Array []) None 5 True [(1, Some (typed []))] empty_world
       = message example_manager ''Q?'' (Array [''no'']) (Some ''bad'') 5 True [(1, Some (typed []))] empty_world
   \<and> fst (message example_manager ''Q?'' (Array []) None 5 True [(1, Some (typed []))] empty_world)
       = Returned None
   \<and> trace (snd (message example_manager ''Q?'' (Array []) None 5 True [(1, Some (typed []))] empty_world))
       = [Channel_send ''Q?'', Await_messages 300000, Input_delete 1,
          Trigger_send ''Successfully cancelled the prompt!'']"
  using empty_input_cancels [of example_manager empty_world "typed []" "''Q?''" "Array []"
      None 5 True 1 "[]" "Array [''no'']" "Some ''bad''"]
  by (simp add: eval_defs)

subsection \<open>Timing out\<close>



subsection \<open>Accepted inputs\<close>

lemma in_concat_map:
  "x \<in> set (concat (map (\<lambda>i. map (f i) (js i)) ks)) \<longleftrightarrow> (\<exists>i \<in> set ks. \<exists>j \<in> set (js i). x = f i j)"
  by auto

lemma in_pieces:
  "x \<in> set (pieces s) \<longleftrightarrow>
     (\<exists>i \<le> length s. \<exists>j \<le> length s - i. x = (take i s, take j (drop i s), drop (i + j) s))"
  unfolding pieces_def in_concat_map by (auto simp: le_less)

lemma set_pieces: "set (pieces s) = {(a, b, c). s = a @ b @ c}"
proof (rule set_eqI)
  fix x :: "string \<times> string \<times> string"
  obtain a b c where x: "x = (a, b, c)"
    by (cases x)
  show "x \<in> set (pieces s) \<longleftrightarrow> x \<in> {(a, b, c). s = a @ b @ c}"
  proof
    assume "x \<in> set (pieces s)"
    then obtain i j where "a = take i s" "b = take j (drop i s)" "c = drop (i + j) s"
      unfolding x in_pieces by blast
    moreover have "drop (i + j) s = drop j (drop i s)"
      by (simp add: add.commute)
    ultimately have "a @ b @ c = s"
      by (simp only: append_take_drop_id)
    then show "x \<in> {(a, b, c). s = a @ b @ c}"
      unfolding x by simp
  next
    assume "x \<in> {(a, b, c). s = a @ b @ c}"
    then have s: "s = a @ b @ c"
      unfolding x by simp
    have "(a, b, c) = (take (length a) s, take (length b) (drop (length a) s), drop (length a + length b) s)"
      by (simp add: s)
    moreover have "length a \<le> length s" "length b \<le> length s - length a"
      by (simp_all add: s)
    ultimately show "x \<in> set (pieces s)"
      unfolding x in_pieces by blast
  qed
qed

lemma regexp_test_iff:
  "regexp_test re s \<longleftrightarrow> (\<exists>pre piece post. s = pre @ piece @ post \<and> re pre piece post)"
  by (auto simp: regexp_test_def list_ex_iff set_pieces)

lemma accepts_text_iff:
  "accepts_text opts s \<longleftrightarrow>
     (case opts of
        RegExp re \<Rightarrow> (\<exists>pre piece post. s = pre @ piece @ post \<and> re pre piece post)
      | Array xs \<Rightarrow> xs = [] \<or> s \<in> set xs)"
  by (cases opts) (simp_all add: regexp_test_iff)

text \<open>
  Claim C4 (amended). \<open>message\<close> returns a text on its first awaited message exactly when
  the content is not, in lower case, a prefix of \<open>quit\<close> (the empty content is one) and
  either the options are a regular expression that matches some piece of the content, or
  an empty array, or an array that contains the content (compared as it is). It then
  returns the content unchanged, and the user is not registered when it returns.
\<close>

theorem message_accepts:
  assumes "user_id pm \<notin> prompts w"
  shows "((\<exists>r. fst (message pm question opts error timeout initial [(n, Some inp)] w) = Returned (Some r))
          \<longleftrightarrow> \<not> prefix (toLowerCase (content inp)) ''quit''
              \<and> (case opts of
                    RegExp re \<Rightarrow> (\<exists>pre piece post. content inp = pre @ piece @ post \<and> re pre piece post)
                  | Array xs \<Rightarrow> xs = [] \<or> content inp \<in> set xs))
     \<and> (\<not> prefix (toLowerCase (content inp)) ''quit''
          \<and> (case opts of
                RegExp re \<Rightarrow> (\<exists>pre piece post. content inp = pre @ piece @ post \<and> re pre piece post)
              | Array xs \<Rightarrow> xs = [] \<or> content inp \<in> set xs)
        \<longrightarrow> fst (message pm question opts error timeout initial ((n, Some inp) # rest) w)
              = Returned (Some (content inp))
          \<and> user_id pm \<notin> prompts (snd (message pm question opts error timeout initial ((n, Some inp) # rest) w)))"
  unfolding accepts_text_iff [symmetric] message_event [OF assms] Let_def
  using assms by (auto simp: quit_startsWith_def)

theorem message_accepts_witness:
  "user_id example_manager \<notin> prompts empty_world
   \<and> \<not> prefix (toLowerCase (content (typed ''Hello''))) ''quit''
   \<and> content (typed ''Hello'') = ''H'' @ ''ell'' @ ''o''
   \<and> message example_manager ''Q?'' (RegExp (contains ''ell'')) None 5 True
        [(1, Some (typed ''Hello'')), (0, None)] empty_world
       = (Returned (Some ''Hello''),
          asked_world [Channel_send ''Q?'', Await_messages 300000, Input_delete 1])
   \<and> fst (message example_manager ''Q?'' (Array [''yes'', ''no'']) None 5 True
        [(1, Some (typed ''no''))] empty_world) = Returned (Some ''no'')
   \<and> fst (message example_manager ''Q?'' (Array [''yes'', ''no'']) None 5 True
        [(1, Some (typed ''No''))] empty_world) = Pending"
  using message_accepts [of example_manager empty_world "''Q?''"
      "RegExp (contains ''ell'')" None 5 True 1 "typed ''Hello''" "[(0, None)]"]
  by (simp add: eval_defs regexp_test_def pieces_def contains_def)

text \<open>
  The claim as first stated accepts every text that the options accept. With the empty
  array, which accepts anything, the text \<open>q\<close> cancels the prompt instead.
\<close>

theorem message_accepts_counterexample:
  "accepts_text (Array []) (content (typed ''q''))
   \<and> message example_manager ''Q?'' (Array []) None 5 True [(1, Some (typed ''q''))] empty_world
       = (Returned None,
          asked_world [Channel_send ''Q?'', Await_messages 300000, Input_delete 1,
                    Trigger_send ''Successfully cancelled the prompt!''])"
  by (simp add: eval_defs)

subsection \<open>Rejected inputs\<close>

lemma substitute_nonempty: "v \<noteq> [] \<Longrightarrow> e \<noteq> [] \<Longrightarrow> substitute e v \<noteq> []"
  by (cases e) auto

lemma substitute_plain: "CHR ''{'' \<notin> set a \<Longrightarrow> substitute (a @ s) v = a @ substitute s v"
  by (induction a) auto

lemma substitute_placeholder: "substitute (''{VALUE}'' @ s) v = v @ substitute s v"
  by simp

lemma substitute_one:
  "CHR ''{'' \<notin> set a \<Longrightarrow> CHR ''{'' \<notin> set b \<Longrightarrow> substitute (a @ ''{VALUE}'' @ b) v = a @ v @ b"
proof -
  assume a: "CHR ''{'' \<notin> set a" and b: "CHR ''{'' \<notin> set b"
  have "substitute (a @ (''{VALUE}'' @ b)) v = a @ substitute (''{VALUE}'' @ b) v"
    using a by (rule substitute_plain)
  also have "substitute (''{VALUE}'' @ b) v = v @ substitute b v"
    by (rule substitute_placeholder)
  also have "substitute b v = b"
    using substitute_plain [OF b, of "[]" v] by simp
  finally show ?thesis .
qed

text \<open>
  Claim C5 has every rejected input re-render the question by an edit of the message that
  the call created, never by another message. The code does not do so when the answer is
  early. Line 56 calls \<open>sendQuestion\<close> without \<open>await\<close> (line 103 of \<open>reaction\<close> awaits
  it), and \<open>this.msg\<close> is assigned only when the send resolves. When the rejected answer
  \<open>no\<close> is received before that, line 78 finds no \<open>this.msg\<close> and sends a second message:
  two messages are sent, and the first is never edited. When the send has resolved before
  the answer is received, message 7 is edited, as the claim has it.
\<close>

theorem rejected_before_send_resolves:
  "message example_manager ''Q?'' (Array [''yes'']) None 5 True
        [(0, Some (typed ''no'')), (2, Some (typed ''yes''))] empty_world
       = (Returned (Some ''yes''),
          \<lparr>prompts = {}, msg = (\<lambda>_. None)(0 \<mapsto> \<lparr>msg_id = 8, deletable = True\<rparr>),
           pending = (\<lambda>_. [])(0 := []),
           trace = [Channel_send ''Q?'', Await_messages 300000, Input_delete 1,
                    Channel_send (''`no` is not a valid choice! Please try again.'' @ newlines @ ''Q?''),
                    Await_messages 300000, Input_delete 1],
           unhandled = []\<rparr>)
   \<and> sends (snd (message example_manager ''Q?'' (Array [''yes'']) None 5 True
        [(0, Some (typed ''no'')), (2, Some (typed ''yes''))] empty_world)) = 2
   \<and> message example_manager ''Q?'' (Array [''yes'']) None 5 True
        [(1, Some (typed ''no'')), (0, Some (typed ''yes''))] empty_world
       = (Returned (Some ''yes''),
          asked_world [Channel_send ''Q?'', Await_messages 300000, Input_delete 1,
                    Msg_edit 7 (''`no` is not a valid choice! Please try again.'' @ newlines @ ''Q?''),
                    Await_messages 300000, Input_delete 1])"
  by (simp add: eval_defs error_text_def)

subsection \<open>Every way \<open>message\<close> returns\<close>

lemma ui_deletes_simps [simp]:
  "ui_deletes [] = []"
  "ui_deletes (as @ bs) = ui_deletes as @ ui_deletes bs"
  "ui_deletes (Msg_delete i # as) = i # ui_deletes as"
  "ui_deletes (Channel_send s # as) = ui_deletes as"
  "ui_deletes (Msg_edit i s # as) = ui_deletes as"
  "ui_deletes (Msg_react i s # as) = ui_deletes as"
  "ui_deletes (Trigger_send s # as) = ui_deletes as"
  "ui_deletes (Input_delete i # as) = ui_deletes as"
  "ui_deletes (Await_messages k # as) = ui_deletes as"
  "ui_deletes (Await_reactions i k # as) = ui_deletes as"
  by (simp_all add: ui_deletes_def)

lemma terminal_prepend:
  "terminal pm r w' as \<Longrightarrow> ui_deletes pre = [] \<Longrightarrow> terminal pm r w' (pre @ as)"
  by (auto simp: terminal_def)

lemma sendQuestion_appends:
  "\<exists>a. trace (sendQuestion_detached pm q w) = trace w @ [a] \<and> ui_deletes [a] = []"
  by (auto simp: sendQuestion_detached_trace split: option.splits)

lemma rendered_appends:
  "\<exists>as. trace (if i then sendQuestion_detached pm q w else w) = trace w @ as \<and> ui_deletes as = []"
  using sendQuestion_appends [of pm q w] by (cases i) auto

lemma message_returned:
  "user_id pm \<notin> prompts w \<Longrightarrow> message pm q opts err t i evs w = (Returned r, w') \<Longrightarrow>
     prompts w' = prompts w \<and> (\<exists>as. trace w' = trace w @ as \<and> terminal pm r w' as)"
proof (induction evs arbitrary: w i)
  case Nil
  then show ?case by simp
next
  case (Cons ev evs)
  obtain n input where ev: "ev = (n, input)"
    by (cases ev)
  obtain ren where ren: "trace (if i then sendQuestion_detached pm q w else w) = trace w @ ren"
      "ui_deletes ren = []"
    using rendered_appends [of i pm q w] by blast
  let ?w4 = "resolve_sends pm n
               (log [Await_messages (1000 * 60 * t)] (if i then sendQuestion_detached pm q w else w))"
  have t4: "trace ?w4 = trace w @ (ren @ [Await_messages (1000 * 60 * t)])"
    using ren(1) by (cases i) simp_all
  have p4: "prompts ?w4 = prompts w"
    by simp
  note unf = Cons.prems(2) [unfolded ev message_event [OF Cons.prems(1)] Let_def]
  show ?case
  proof (cases input)
    case None
    let ?del = "case msg ?w4 (this pm) of
                  None \<Rightarrow> []
                | Some m \<Rightarrow> if deletable m then [Msg_delete (msg_id m)] else []"
    let ?as = "(ren @ [Await_messages (1000 * 60 * t)]) @ ?del @ [Trigger_send ''The prompt timed out!'']"
    from unf None
    have r: "r = None"
      and w': "w' = request pm False (Trigger_send ''The prompt timed out!'') (delete pm ?w4)"
      by simp_all
    have p: "prompts w' = prompts w"
      using Cons.prems(1) p4 by (simp add: w' delete_fields)
    have m: "msg w' = msg ?w4"
      by (simp add: w' delete_fields)
    have tr: "trace w' = trace w @ ?as"
      unfolding w' using ren(1) by (simp add: delete_fields)
    have "terminal pm r w' ?as"
      unfolding terminal_def r m
      by (auto simp: ren(2) split: option.splits)
    with p tr show ?thesis by blast
  next
    case (Some inp)
    let ?rcv = "if input_deletable inp then [Input_delete (input_id inp)] else []"
    let ?w5 = "if input_deletable inp then request pm True (Input_delete (input_id inp)) ?w4 else ?w4"
    let ?w6 = "sendQuestion_detached pm (error_text err (content inp) @ newlines @ q) ?w5"
    let ?pre = "ren @ [Await_messages (1000 * 60 * t)] @ ?rcv"
    have t5: "trace ?w5 = trace w @ ?pre"
      using t4 by simp
    have d5: "ui_deletes ?pre = []"
      by (simp add: ren(2))
    have p5: "prompts ?w5 = prompts w"
      using p4 by simp
    consider (quit) "quit_startsWith (toLowerCase (content inp))"
      | (accept) "\<not> quit_startsWith (toLowerCase (content inp))" "accepts_text opts (content inp)"
      | (reject) "\<not> quit_startsWith (toLowerCase (content inp))" "\<not> accepts_text opts (content inp)"
      by blast
    then show ?thesis
    proof cases
      case quit
      with unf Some have r: "r = None"
        and w': "w' = request pm False (Trigger_send ''Successfully cancelled the prompt!'') ?w5"
        by simp_all
      have "trace w' = trace w @ (?pre @ [Trigger_send ''Successfully cancelled the prompt!''])"
        unfolding w' using t5 by simp
      moreover have "terminal pm r w' (?pre @ [Trigger_send ''Successfully cancelled the prompt!''])"
        unfolding terminal_def r by simp
      moreover have "prompts w' = prompts w"
        unfolding w' using p5 by simp
      ultimately show ?thesis by blast
    next
      case accept
      with unf Some have r: "r = Some (content inp)" and w': "w' = ?w5"
        by simp_all
      have "terminal pm r w' ?pre"
        unfolding terminal_def r using d5 by simp
      with t5 p5 show ?thesis unfolding w' by blast
    next
      case reject
      with unf Some have rec: "message pm q opts err t False evs ?w6 = (Returned r, w')"
        by simp
      have p6: "user_id pm \<notin> prompts ?w6"
        using Cons.prems(1) p5 by simp
      obtain a where a: "trace ?w6 = trace ?w5 @ [a]" "ui_deletes [a] = []"
        using sendQuestion_appends [of pm _ ?w5] by blast
      from Cons.IH [OF p6 rec] obtain as where
        as: "prompts w' = prompts ?w6" "trace w' = trace ?w6 @ as" "terminal pm r w' as"
        by blast
      have "trace w' = trace w @ ((?pre @ [a]) @ as)"
        unfolding as(2) a(1) t5 by simp
      moreover have "terminal pm r w' ((?pre @ [a]) @ as)"
        using as(3) by (rule terminal_prepend) (use d5 a(2) in simp)
      moreover have "prompts w' = prompts w"
        using as(1) p5 by simp
      ultimately show ?thesis by blast
    qed
  qed
qed

text \<open>What \<open>message\<close> returns and the registry it leaves depend on the user and the
  events only, not on the transport.\<close>

lemma message_outcome_transport:
  "user_id pm' = user_id pm \<Longrightarrow> prompts v = prompts w \<Longrightarrow>
     fst (message pm' q opts err t i evs v) = fst (message pm q opts err t i evs w)
     \<and> prompts (snd (message pm' q opts err t i evs v)) = prompts (snd (message pm q opts err t i evs w))"
proof (induction evs arbitrary: v w i)
  case Nil
  then show ?case by (simp add: message_open_fields)
next
  case (Cons ev evs)
  obtain n input where ev: "ev = (n, input)"
    by (cases ev)
  show ?case
  proof (cases "user_id pm \<in> prompts w")
    case True
    with Cons.prems show ?thesis by (simp add: message_guard)
  next
    case False
    with Cons.prems have False': "user_id pm' \<notin> prompts v"
      by simp
    let ?w4 = "resolve_sends pm n
                 (log [Await_messages (1000 * 60 * t)] (if i then sendQuestion_detached pm q w else w))"
    let ?v4 = "resolve_sends pm' n
                 (log [Await_messages (1000 * 60 * t)] (if i then sendQuestion_detached pm' q v else v))"
    have p4: "prompts ?v4 = prompts ?w4"
      using Cons.prems(2) by simp
    show ?thesis
    proof (cases input)
      case None
      show ?thesis
        unfolding ev None message_event [OF False] message_event [OF False'] Let_def
        using p4 Cons.prems(1) by (simp add: delete_fields)
    next
      case (Some inp)
      let ?w5 = "if input_deletable inp then request pm True (Input_delete (input_id inp)) ?w4 else ?w4"
      let ?v5 = "if input_deletable inp then request pm' True (Input_delete (input_id inp)) ?v4 else ?v4"
      have p5: "prompts ?v5 = prompts ?w5"
        using p4 by simp
      let ?w6 = "sendQuestion_detached pm (error_text err (content inp) @ newlines @ q) ?w5"
      let ?v6 = "sendQuestion_detached pm' (error_text err (content inp) @ newlines @ q) ?v5"
      have p6: "prompts ?v6 = prompts ?w6"
        using p5 by simp
      note ih = Cons.IH [OF Cons.prems(1) p6, of False]
      show ?thesis
        unfolding ev Some message_event [OF False] message_event [OF False'] Let_def
        using p5 ih by (simp del: message.simps)
    qed
  qed
qed

text \<open>
  Claim C2 (amended). Whenever \<open>message\<close>, called for a user that is not registered,
  returns, the user is not registered, and the call ended in one of three ways: the time
  ran out, nothing is returned, and the only deletion of a question message requested is
  that of the object's message when it has one that is deletable; or the user cancelled
  and nothing is returned; or an input was accepted and returned, and no deletion of a
  question message was requested. A request that fails does not change the outcome: what
  the call returns and the registry it leaves are the same whatever requests the transport
  rejects.
\<close>

theorem message_terminal_paths:
  assumes "user_id pm \<notin> prompts w"
    and "message pm question opts error timeout initial evs w = (Returned r, w')"
  shows "user_id pm \<notin> prompts w'
    \<and> (\<exists>as. trace w' = trace w @ as \<and> as \<noteq> []
          \<and> (last as = Trigger_send ''The prompt timed out!'' \<and> r = None
                \<and> ui_deletes as = (case msg w' (this pm) of
                                     None \<Rightarrow> []
                                   | Some m \<Rightarrow> if deletable m then [msg_id m] else [])
              \<or> last as = Trigger_send ''Successfully cancelled the prompt!'' \<and> r = None
              \<or> r \<noteq> None \<and> ui_deletes as = []))
    \<and> fst (message (pm\<lparr>fails := rejected\<rparr>) question opts error timeout initial evs w) = Returned r
    \<and> prompts (snd (message (pm\<lparr>fails := rejected\<rparr>) question opts error timeout initial evs w))
        = prompts w'"
  using message_returned [OF assms] assms
    message_outcome_transport [of "pm\<lparr>fails := rejected\<rparr>" pm w w question opts error timeout initial evs]
  unfolding terminal_def by auto

theorem message_terminal_paths_witness:
  "user_id example_manager \<notin> prompts empty_world
   \<and> message example_manager ''Q?'' (Array [''yes'']) None 5 True
        [(1, Some (typed ''no'')), (0, None)] empty_world
       = (Returned None,
          asked_world [Channel_send ''Q?'', Await_messages 300000, Input_delete 1,
                    Msg_edit 7 (''`no` is not a valid choice! Please try again.'' @ newlines @ ''Q?''),
                    Await_messages 300000, Msg_delete 7, Trigger_send ''The prompt timed out!''])
   \<and> ui_deletes [Channel_send ''Q?'', Await_messages 300000, Input_delete 1,
                    Msg_edit 7 (''`no` is not a valid choice! Please try again.'' @ newlines @ ''Q?''),
                    Await_messages 300000, Msg_delete 7, Trigger_send ''The prompt timed out!''] = [7]
   \<and> message (example_manager\<lparr>fails := (\<lambda>a. a = Msg_delete 7 \<or> a = Input_delete 1)\<rparr>)
        ''Q?'' (Array [''yes'']) None 5 True [(1, Some (typed ''no'')), (0, None)] empty_world
       = (Returned None,
          (asked_world [Channel_send ''Q?'', Await_messages 300000, Input_delete 1,
                    Msg_edit 7 (''`no` is not a valid choice! Please try again.'' @ newlines @ ''Q?''),
                    Await_messages 300000, Msg_delete 7, Trigger_send ''The prompt timed out!''])
            \<lparr>unhandled := [Msg_delete 7]\<rparr>)
   \<and> message example_manager ''Q?'' (Array [''yes'']) None 5 True [(1, Some (typed ''qui''))] empty_world
       = (Returned None,
          asked_world [Channel_send ''Q?'', Await_messages 300000, Input_delete 1,
                    Trigger_send ''Successfully cancelled the prompt!''])
   \<and> message example_manager ''Q?'' (Array [''yes'']) None 5 True [(1, Some (typed ''yes''))] empty_world
       = (Returned (Some ''yes''),
          asked_world [Channel_send ''Q?'', Await_messages 300000, Input_delete 1])"
  using message_terminal_paths [of example_manager empty_world "''Q?''" "Array [''yes'']" None 5 True
      "[(1, Some (typed ''no'')), (0, None)]" None
      "asked_world [Channel_send ''Q?'', Await_messages 300000, Input_delete 1,
                    Msg_edit 7 (''`no` is not a valid choice! Please try again.'' @ newlines @ ''Q?''),
                    Await_messages 300000, Msg_delete 7, Trigger_send ''The prompt timed out!'']"
      "\<lambda>a. a = Msg_delete 7 \<or> a = Input_delete 1"]
  by (simp add: eval_defs error_text_def)

text \<open>
  The claim as first stated has every way of returning attempt to delete the question
  message, and every failure of that swallowed. A call that returns the accepted text
  \<open>hello\<close> leaves the deletable question message 7 alone: only the deletion of the user's
  own message is requested. And when the time runs out and the transport rejects the
  deletion of message 7, nobody handles the rejection: line 34 attaches no handler.
\<close>

theorem message_terminal_paths_counterexample:
  "message example_manager ''Q?'' (Array []) None 5 True [(1, Some (typed ''hello''))] empty_world
       = (Returned (Some ''hello''),
          asked_world [Channel_send ''Q?'', Await_messages 300000, Input_delete 1])
   \<and> Msg_delete 7 \<notin> set [Channel_send ''Q?'', Await_messages 300000, Input_delete 1]
   \<and> message (example_manager\<lparr>fails := (\<lambda>a. a = Msg_delete 7)\<rparr>)
        ''Q?'' (Array []) None 5 True [(1, None)] empty_world
       = (Returned None,
          (asked_world [Channel_send ''Q?'', Await_messages 300000, Msg_delete 7,
                    Trigger_send ''The prompt timed out!''])\<lparr>unhandled := [Msg_delete 7]\<rparr>)"
  by (simp add: eval_defs)

subsection \<open>Reactions\<close>

lemma reaction_no_events_fst:
  "fst (reaction pm q opts react err t i [] w) \<noteq> Returned (Some r)"
  by (auto split: option.splits prod.splits)

lemma reaction_awaiting:
  assumes "fst (reaction pm q opts react err t i [] w) = Pending"
  shows "user_id pm \<notin> prompts w \<and> (\<exists>m w3. reaction_open pm q opts react i w = (Some m, w3))"
  using assms by (auto split: if_splits option.splits prod.splits)

lemma reaction_event_fst:
  assumes "fst (reaction pm q opts react err t i [] w) = Pending"
  shows "fst (reaction pm q opts react err t i ((n, Some e) # rest) w) =
    (if accepts_emoji opts e then Returned (Some e)
     else fst (reaction pm q opts react err t False rest
       (sendQuestion_detached pm (reaction_error_text err @ newlines @ q)
          ((resolve_sends pm n
              (log [Await_reactions (msg_id (the (fst (reaction_open pm q opts react i w))))
                       (1000 * 60 * t)]
                 (snd (reaction_open pm q opts react i w))))
           \<lparr>prompts := prompts w\<rparr>))))"
proof -
  from reaction_awaiting [OF assms] obtain m w3
    where g: "user_id pm \<notin> prompts w" and o: "reaction_open pm q opts react i w = (Some m, w3)"
    by blast
  have p3: "prompts w3 = insert (user_id pm) (prompts w)"
    using reaction_open_prompts [of pm q opts react i w] o by simp
  show ?thesis
    using g by (simp add: o Let_def p3 released_prompts del: reaction.simps(1))
qed

lemma accepts_emoji_iff:
  "accepts_emoji opts e \<longleftrightarrow>
     (case opts of
        RegExp re \<Rightarrow> (\<exists>pre piece post. emoji_name e = pre @ piece @ post \<and> re pre piece post)
      | Array xs \<Rightarrow> xs = [] \<or> id_or_name e \<in> set xs)"
  by (cases opts) (simp_all add: regexp_test_iff)

text \<open>On a transport that rejects nothing, \<open>reaction\<close> awaits whenever the user is not
  registered and the question is rendered by the call or was rendered before.\<close>

lemma reaction_awaits:
  assumes "user_id pm \<notin> prompts w" and "i \<or> msg w (this pm) \<noteq> None" and "\<And>a. \<not> fails pm a"
  shows "fst (reaction pm q opts react err t i [] w) = Pending"
proof -
  have "list_ex (fails pm) as = False" for as
    using assms(3) by (simp add: list_ex_iff)
  then show ?thesis
    using assms
    by (auto simp: reaction_open_def sendQuestion_awaited_def sendQuestion_def resolve_sends_def
        request_def Let_def split: option.splits prod.splits)
qed

text \<open>
  Claim C8 (amended). \<open>reaction\<close>, once it awaits a reaction, returns on the first one
  exactly when the options are a regular expression that matches some piece of the name of
  the emoji, or an empty array, or an array that contains the id of the emoji when it has a
  non-empty one and its name otherwise. What it returns is the emoji itself. The call
  awaits whenever the user is not registered, the question is rendered by the call or was
  rendered before, and the transport rejects nothing.
\<close>

theorem reaction_accepts:
  assumes "fst (reaction pm question opts react error timeout initial [] w) = Pending"
  shows "((\<exists>r. fst (reaction pm question opts react error timeout initial [(n, Some e)] w) = Returned (Some r))
          \<longleftrightarrow> (case opts of
                 RegExp re \<Rightarrow> (\<exists>pre piece post. emoji_name e = pre @ piece @ post \<and> re pre piece post)
               | Array xs \<Rightarrow> xs = [] \<or> id_or_name e \<in> set xs))
     \<and> ((case opts of
            RegExp re \<Rightarrow> (\<exists>pre piece post. emoji_name e = pre @ piece @ post \<and> re pre piece post)
          | Array xs \<Rightarrow> xs = [] \<or> id_or_name e \<in> set xs)
        \<longrightarrow> fst (reaction pm question opts react error timeout initial ((n, Some e) # rest) w)
              = Returned (Some e))
     \<and> id_or_name e = (case emoji_id e of
                         None \<Rightarrow> emoji_name e
                       | Some i \<Rightarrow> if i = [] then emoji_name e else i)
     \<and> (user_id pm \<notin> prompts w \<and> (initial \<or> msg w (this pm) \<noteq> None) \<and> (\<forall>a. \<not> fails pm a)
        \<longrightarrow> fst (reaction pm question opts react error timeout initial [] w) = Pending)"
  unfolding accepts_emoji_iff [symmetric] reaction_event_fst [OF assms]
  using reaction_awaits [of pm w initial question opts react error timeout]
  by (simp add: reaction_no_events_fst id_or_name_def del: reaction.simps)

theorem reaction_accepts_witness:
  "fst (reaction example_manager ''Q?'' (Array [''123'', ''ok'']) True None 5 True [] empty_world) = Pending
   \<and> fst (reaction example_manager ''Q?'' (RegExp (contains ''ok'')) False None 5 True [] empty_world) = Pending
   \<and> user_id example_manager \<notin> prompts empty_world
   \<and> id_or_name custom_emoji = ''123''
   \<and> id_or_name unicode_emoji = ''ok''
   \<and> fst (reaction example_manager ''Q?'' (Array [''123'', ''ok'']) True None 5 True
            [(0, Some custom_emoji)] empty_world) = Returned (Some custom_emoji)
   \<and> fst (reaction example_manager ''Q?'' (Array [''123'', ''ok'']) True None 5 True
            [(0, Some unicode_emoji)] empty_world) = Returned (Some unicode_emoji)
   \<and> fst (reaction example_manager ''Q?'' (Array [''yes'']) True None 5 True
            [(0, Some custom_emoji)] empty_world) = Pending
   \<and> emoji_name unicode_emoji = [] @ ''ok'' @ []
   \<and> fst (reaction example_manager ''Q?'' (RegExp (contains ''ok'')) False None 5 True
            [(0, Some unicode_emoji)] empty_world) = Returned (Some unicode_emoji)"
  using reaction_accepts [of example_manager "''Q?''" "Array [''123'', ''ok'']" True
      None 5 True empty_world 0 custom_emoji "[]"]
    reaction_accepts [of example_manager "''Q?''" "RegExp (contains ''ok'')" False
      None 5 True empty_world 0 unicode_emoji "[]"]
  by (simp add: eval_defs reaction_open_def id_or_name_def custom_emoji_def unicode_emoji_def
      contains_def regexp_test_def pieces_def reaction_error_text_def)

text \<open>
  The claim as first stated has a regular expression tested on the id of a custom emoji.
  The emoji with id \<open>123\<close> and name \<open>yes\<close> is accepted by the expression that finds
  \<open>yes\<close>, which its id does not match, and not by the one that finds \<open>123\<close>.
\<close>

theorem reaction_accepts_counterexample:
  "id_or_name custom_emoji = ''123''
   \<and> \<not> regexp_test (contains ''yes'') (id_or_name custom_emoji)
   \<and> fst (reaction example_manager ''Q?'' (RegExp (contains ''yes'')) False None 5 True
            [(0, Some custom_emoji)] empty_world) = Returned (Some custom_emoji)
   \<and> regexp_test (contains ''123'') (id_or_name custom_emoji)
   \<and> fst (reaction example_manager ''Q?'' (RegExp (contains ''123'')) False None 5 True
            [(0, Some custom_emoji)] empty_world) = Pending"
  by (simp add: eval_defs reaction_open_def id_or_name_def custom_emoji_def
      contains_def regexp_test_def pieces_def reaction_error_text_def)

subsection \<open>Choosing one of a list\<close>

lemma digit_char_digit: "d < 10 \<Longrightarrow> digit_char d \<in> set ''0123456789''"
  unfolding digit_char_def by (rule nth_mem) simp

lemma toString_digits: "toString n \<noteq> [] \<and> set (toString n) \<subseteq> set ''0123456789''"
proof (induction n rule: toString.induct)
  case (1 n)
  show ?case
  proof (cases "n < 10")
    case True
    then show ?thesis
      using digit_char_digit [of n] by (subst (1 2) toString.simps) simp
  next
    case False
    then show ?thesis
      using 1 digit_char_digit [of "n mod 10"] by (subst (1 2) toString.simps) simp
  qed
qed

lemma digit_of_digit_char: "d < 10 \<Longrightarrow> digit_of 10 (digit_char d) = Some d"
proof -
  assume "d < 10"
  then have "d \<in> {0, 1, 2, 3, 4, 5, 6, 7, 8, 9}"
    by auto
  then show ?thesis
    by (auto simp: digit_of_def digit_char_def)
qed

lemma parse_digits_toString:
  "parse_digits 10 (toString n @ ys) None = parse_digits 10 ys (Some n)"
proof (induction n arbitrary: ys rule: toString.induct)
  case (1 n)
  show ?case
  proof (cases "n < 10")
    case True
    then show ?thesis
      by (subst toString.simps) (simp add: digit_of_digit_char)
  next
    case False
    have "parse_digits 10 (toString n @ ys) None
        = parse_digits 10 (toString (n div 10) @ (digit_char (n mod 10) # ys)) None"
      using False by (subst toString.simps) simp
    also have "\<dots> = parse_digits 10 (digit_char (n mod 10) # ys) (Some (n div 10))"
      using False by (rule 1)
    also have "\<dots> = parse_digits 10 ys (Some n)"
      by (simp add: digit_of_digit_char)
    finally show ?thesis .
  qed
qed

lemma digit_facts:
  assumes "c \<in> set ''0123456789''"
  shows "\<not> is_space c" "c \<noteq> CHR ''-''" "c \<noteq> CHR ''+''" "c \<noteq> CHR ''x''" "c \<noteq> CHR ''X''"
    "toLowerCase_char c = c" "c \<noteq> CHR ''q''"
  using assms by (auto simp: is_space_def toLowerCase_char_def)

lemma parseInt_toString: "parseInt (toString n) = Some (int n)"
proof -
  obtain c cs where s: "toString n = c # cs"
    using toString_digits [of n] by (cases "toString n") auto
  have c: "c \<in> set ''0123456789''" and cs: "set cs \<subseteq> set ''0123456789''"
    using toString_digits [of n] unfolding s by auto
  have sp: "dropWhile is_space (toString n) = toString n"
    unfolding s using digit_facts(1) [OF c] by simp
  have sg: "strip_sign (toString n) = (1, toString n)"
    unfolding s strip_sign_def using digit_facts(2,3) [OF c] by simp
  have "\<not> prefix ''0x'' (c # cs)" "\<not> prefix ''0X'' (c # cs)"
    using cs digit_facts(4,5) by (cases cs; auto)+
  then have rx: "strip_radix (toString n) = (10, toString n)"
    unfolding s strip_radix_def by simp
  have "parse_digits 10 (toString n) None = Some n"
    using parse_digits_toString [of n "[]"] by simp
  then show ?thesis
    unfolding parseInt_def sp sg by (simp add: rx)
qed

lemma toString_not_quit: "\<not> quit_startsWith (toLowerCase (toString n))"
proof -
  obtain c cs where s: "toString n = c # cs"
    using toString_digits [of n] by (cases "toString n") auto
  have c: "c \<in> set ''0123456789''"
    using toString_digits [of n] unfolding s by auto
  show ?thesis
    unfolding s quit_startsWith_def toLowerCase_def
    using digit_facts(6,7) [OF c] by simp
qed

lemma toString_nonempty: "toString k \<noteq> []"
  using toString_digits [of k] by simp

lemma choice_options_eq: "choice_options choices = map toString [1 ..< Suc (length choices)]"
proof -
  have "[1 ..< Suc (length choices)] = map Suc [0 ..< length choices]"
    by (simp add: map_Suc_upt del: upt_Suc)
  then show ?thesis
    by (simp add: choice_options_def del: upt_Suc)
qed

lemma choice_lines_eq:
  "choice_lines to_text choices
     = map (\<lambda>i. toString (i + 1) @ '' | '' @ to_text (choices ! i)) [0 ..< length choices]"
  unfolding choice_lines_def
  by (rule nth_equalityI) simp_all

lemma in_choice_options:
  "c \<in> set (choice_options choices) \<longleftrightarrow> (\<exists>k. 1 \<le> k \<and> k \<le> length choices \<and> c = toString k)"
  unfolding choice_options_eq by (auto simp: image_iff Bex_def)

lemma message_returns_option:
  "message pm q (Array xs) err t i evs w = (Returned (Some c), w') \<Longrightarrow> xs \<noteq> [] \<Longrightarrow> c \<in> set xs"
proof (induction evs arbitrary: w i)
  case Nil
  then show ?case by (simp split: if_splits)
next
  case (Cons ev evs)
  then show ?case
    by (cases ev) (auto simp: Let_def split: if_splits option.splits)
qed

lemma element_at_index:
  "1 \<le> k \<Longrightarrow> k \<le> length xs \<Longrightarrow>
     element_at xs (map_option (\<lambda>n. n - 1) (parseInt (toString k))) = Some (xs ! (k - 1))"
  by (simp add: parseInt_toString element_at_def nat_diff_distrib')

lemma chooseOne_returned:
  assumes "message pm (choice_question cb to_text q choices) (Array (choice_options choices))
             (Some ''`{VALUE}` is not a valid option! Please try again.'') (promptTimeout pm) True evs w
           = (Returned (Some c), w')"
    and "choices \<noteq> []"
  shows "\<exists>k. 1 \<le> k \<and> k \<le> length choices \<and> c = toString k
    \<and> chooseOne pm cb to_text q choices evs w = (Returned (Some (choices ! (k - 1))), w')"
proof -
  have "choice_options choices \<noteq> []"
    using assms(2) by (simp add: choice_options_def)
  with assms(1) have "c \<in> set (choice_options choices)"
    by (rule message_returns_option)
  then obtain k where k: "1 \<le> k" "k \<le> length choices" "c = toString k"
    unfolding in_choice_options by blast
  have "chooseOne pm cb to_text q choices evs w = (Returned (Some (choices ! (k - 1))), w')"
    unfolding chooseOne_def assms(1)
    by (simp add: k(3) toString_nonempty element_at_index [OF k(1,2)])
  with k show ?thesis by blast
qed

text \<open>
  Claim C7 (amended). For a non-empty list of \<open>N\<close> choices, \<open>chooseOne\<close> shows the lines
  \<open>i | choice\<close> numbered from 1, calls \<open>message\<close> with the array of the texts of 1 to \<open>N\<close>,
  leaves the world as that call leaves it, returns \<open>choices[k - 1]\<close> when the first message
  of the user is the text of \<open>k\<close> with \<open>1 \<le> k \<le> N\<close>, and returns nothing exactly when
  the call of \<open>message\<close> returns nothing.
\<close>

theorem chooseOne_returns_choice:
  assumes "choices \<noteq> []"
  shows "choice_lines to_text choices
        = map (\<lambda>i. toString (i + 1) @ '' | '' @ to_text (choices ! i)) [0 ..< length choices]
    \<and> choice_options choices = map toString [1 ..< Suc (length choices)]
    \<and> snd (chooseOne pm cb to_text question choices evs w)
        = snd (message pm (question @ cb ''css'' (join [CHR 0x0A] (choice_lines to_text choices)))
                 (Array (choice_options choices))
                 (Some ''`{VALUE}` is not a valid option! Please try again.'')
                 (promptTimeout pm) True evs w)
    \<and> (user_id pm \<notin> prompts w \<and> 1 \<le> k \<and> k \<le> length choices \<and> content inp = toString k
        \<longrightarrow> fst (chooseOne pm cb to_text question choices ((n, Some inp) # rest) w)
              = Returned (Some (choices ! (k - 1))))
    \<and> (fst (chooseOne pm cb to_text question choices evs w) = Returned None
        \<longleftrightarrow> fst (message pm (question @ cb ''css'' (join [CHR 0x0A] (choice_lines to_text choices)))
                 (Array (choice_options choices))
                 (Some ''`{VALUE}` is not a valid option! Please try again.'')
                 (promptTimeout pm) True evs w) = Returned None)"
proof -
  let ?q = "question @ cb ''css'' (join [CHR 0x0A] (choice_lines to_text choices))"
  let ?e = "Some ''`{VALUE}` is not a valid option! Please try again.''"
  let ?M = "\<lambda>evs. message pm ?q (Array (choice_options choices)) ?e (promptTimeout pm) True evs w"
  have q: "choice_question cb to_text question choices = ?q"
    by (simp add: choice_question_def)
  have a: "choice_lines to_text choices
        = map (\<lambda>i. toString (i + 1) @ '' | '' @ to_text (choices ! i)) [0 ..< length choices]"
    by (rule choice_lines_eq)
  have b: "choice_options choices = map toString [1 ..< Suc (length choices)]"
    by (rule choice_options_eq)
  have ce: "snd (chooseOne pm cb to_text question choices evs w) = snd (?M evs)
      \<and> (fst (chooseOne pm cb to_text question choices evs w) = Returned None
           \<longleftrightarrow> fst (?M evs) = Returned None)"
  proof (cases "?M evs")
    case (Pair out w')
    show ?thesis
    proof (cases out)
      case Pending
      with Pair show ?thesis by (simp add: chooseOne_def q)
    next
      case Threw
      with Pair show ?thesis by (simp add: chooseOne_def q)
    next
      case (Returned r)
      show ?thesis
      proof (cases r)
        case None
        with Pair Returned show ?thesis by (simp add: chooseOne_def q)
      next
        case (Some c)
        with Pair Returned chooseOne_returned [of pm cb to_text question choices evs w c w'] assms
        show ?thesis by (auto simp: q)
      qed
    qed
  qed
  have d: "user_id pm \<notin> prompts w \<and> 1 \<le> k \<and> k \<le> length choices \<and> content inp = toString k
        \<longrightarrow> fst (chooseOne pm cb to_text question choices ((n, Some inp) # rest) w)
              = Returned (Some (choices ! (k - 1)))"
  proof
    assume h: "user_id pm \<notin> prompts w \<and> 1 \<le> k \<and> k \<le> length choices \<and> content inp = toString k"
    then have acc: "accepts_text (Array (choice_options choices)) (content inp)"
      using in_choice_options [of "toString k" choices] by auto
    from h have nq: "\<not> quit_startsWith (toLowerCase (content inp))"
      by (simp add: toString_not_quit)
    obtain w' where m: "?M ((n, Some inp) # rest) = (Returned (Some (content inp)), w')"
      using h acc nq by (simp add: message_event Let_def del: message.simps)
    from chooseOne_returned [of pm cb to_text question choices "(n, Some inp) # rest" w "content inp" w']
      m assms
    obtain j where j: "1 \<le> j" "j \<le> length choices" "content inp = toString j"
      "chooseOne pm cb to_text question choices ((n, Some inp) # rest) w = (Returned (Some (choices ! (j - 1))), w')"
      unfolding q by blast
    have "int j = int k"
      using parseInt_toString [of j] parseInt_toString [of k] j(3) h by simp
    then show "fst (chooseOne pm cb to_text question choices ((n, Some inp) # rest) w)
              = Returned (Some (choices ! (k - 1)))"
      using j(4) by simp
  qed
  from a b ce d show ?thesis by blast
qed

theorem chooseOne_returns_choice_witness:
  "[''A'', ''B'', ''C''] \<noteq> ([] :: string list)
   \<and> choice_lines (\<lambda>s. s) [''A'', ''B'', ''C''] = [''1 | A'', ''2 | B'', ''3 | C'']
   \<and> choice_options [''A'', ''B'', ''C''] = [''1'', ''2'', ''3'']
   \<and> user_id example_manager \<notin> prompts empty_world
   \<and> (1::nat) \<le> 2 \<and> 2 \<le> length [''A'', ''B'', ''C'']
   \<and> content (typed ''2'') = toString 2
   \<and> fst (chooseOne example_manager codeblock (\<lambda>s. s) ''Pick:'' [''A'', ''B'', ''C'']
             [(1, Some (typed ''2''))] empty_world) = Returned (Some ''B'')
   \<and> fst (chooseOne example_manager codeblock (\<lambda>s. s) ''Pick:'' [''A'', ''B'', ''C'']
             [(1, Some (typed ''9'')), (0, Some (typed ''2''))] empty_world) = Returned (Some ''B'')
   \<and> fst (chooseOne example_manager codeblock (\<lambda>s. s) ''Pick:'' [''A'', ''B'', ''C'']
             [(1, Some (typed ''9'')), (0, Some (typed ''quit''))] empty_world) = Returned None
   \<and> fst (message example_manager
             (''Pick:'' @ codeblock ''css'' (join [CHR 0x0A] (choice_lines (\<lambda>s. s) [''A'', ''B'', ''C''])))
             (Array (choice_options [''A'', ''B'', ''C'']))
             (Some ''`{VALUE}` is not a valid option! Please try again.'')
             (promptTimeout example_manager) True
             [(1, Some (typed ''9'')), (0, Some (typed ''quit''))] empty_world) = Returned None"
  using chooseOne_returns_choice [of "[''A'', ''B'', ''C'']" "\<lambda>s. s" example_manager codeblock
      "''Pick:''" "[(1, Some (typed ''2''))]" empty_world 2 "typed ''2''" 1 "[]"]
  by (simp add: chooseOne_def choice_question_def choice_lines_def choice_options_def eval_defs
      codeblock_def parseInt_def strip_sign_def strip_radix_def is_space_def
      digit_of_def element_at_def toString.simps digit_char_def error_text_def upt_rec_numeral)

text \<open>
  The claim as first stated is for every list. For the empty list the array of options is
  empty, which accepts anything: \<open>message\<close> returns the text \<open>hello\<close>, and \<open>chooseOne\<close>
  returns nothing.
\<close>

theorem chooseOne_returns_choice_counterexample:
  "fst (message example_manager (''Pick:'' @ codeblock ''css'' (join [CHR 0x0A] (choice_lines (\<lambda>s. s) [])))
          (Array (choice_options ([] :: string list)))
          (Some ''`{VALUE}` is not a valid option! Please try again.'')
          (promptTimeout example_manager) True [(1, Some (typed ''hello''))] empty_world)
     = Returned (Some ''hello'')
   \<and> fst (chooseOne example_manager codeblock (\<lambda>s. s) ''Pick:'' ([] :: string list)
            [(1, Some (typed ''hello''))] empty_world)
     = Returned None"
  by (simp add: chooseOne_def choice_question_def choice_lines_def choice_options_def example_defs
      message_open_def sendQuestion_def log_def Let_def quit_startsWith_def toLowerCase_def
      toLowerCase_char_def codeblock_def parseInt_def strip_sign_def strip_radix_def is_space_def
      digit_of_def element_at_def)

end
